theory Spec2Isabelle
  imports Complex_Main
begin

section \<open>Numbers and state of the predictor\<close>

text \<open>
  The predictor is the \<^verbatim>\<open>App\<close> component of the page. Its five inputs are the values
  of the sliders (\<^verbatim>\<open>useState\<close>), and everything else is recomputed from them.

  JavaScript numbers are modelled as real numbers: \<^verbatim>\<open>+\<close>, \<^verbatim>\<open>-\<close>, \<^verbatim>\<open>*\<close> and \<^verbatim>\<open>/\<close> are
  exact here, where the code rounds every intermediate result to the nearest double.
  \<^verbatim>\<open>Math.max\<close> and \<^verbatim>\<open>Math.min\<close> are \<open>max\<close> and \<open>min\<close>, \<^verbatim>\<open>Math.exp\<close> is \<open>exp\<close>, and
  \<^verbatim>\<open>Math.pow(b, 1.5)\<close> is \<open>b powr 1.5\<close> (the code only calls it with a base between
  0.2 and 1). Every divisor in the code is a non-zero literal.
\<close>

record inputs =
  mw :: real
  concentration :: real
  voltage :: real
  flowRate :: real
  distance :: real

text \<open>The object passed to \<^verbatim>\<open>setPredictions\<close> (stage 1).\<close>

record predictions =
  fiberDiameter :: real
  porosity :: real
  poreSize :: real
  tensileStrength :: real
  youngsModulus :: real
  waterAbsorption :: real
  contactAngle :: real
  degradationRate :: real
  swellingRatio :: real
  morphology :: string
  isInWindow :: bool
  minConc :: real
  maxConc :: real

text \<open>The object passed to \<^verbatim>\<open>setBiologicalOutcomes\<close> (stage 2).\<close>

record biologicalOutcomes =
  cellViability :: real
  proliferationTime :: real
  gagContent :: real
  col2Expression :: real
  aggrecanExpression :: real
  col1_col2_ratio :: real
  mscLineage :: string
  osteogenicScore :: real
  chondrogenicScore :: real
  neurogenicScore :: real
  burstRelease :: real
  sustainedDuration :: real

text \<open>\<^verbatim>\<open>Math.round\<close> rounds to the nearest integer, a tie going up.\<close>

definition Math_round :: "real \<Rightarrow> real" where
  "Math_round x = of_int \<lfloor>x + 1 / 2\<rfloor>"

section \<open>The effect: stage 1 and stage 2\<close>

text \<open>The four intermediate factors of the fibre diameter.\<close>

definition viscosityFactor :: "inputs \<Rightarrow> real" where
  "viscosityFactor s = (mw s / 100000) * (concentration s / 10)"

definition voltageFactor :: "inputs \<Rightarrow> real" where
  "voltageFactor s = 1 - (voltage s - 17.5) * 0.015"

definition flowFactor :: "inputs \<Rightarrow> real" where
  "flowFactor s = 1 + (flowRate s - 1.5) * 0.12"

definition distanceFactor :: "inputs \<Rightarrow> real" where
  "distanceFactor s = 1 + (distance s - 15) * 0.008"

text \<open>
  The body of the \<^verbatim>\<open>useEffect\<close> callback, one binding for each \<^verbatim>\<open>const\<close> of the code,
  in the code's order. The result is the pair of objects it stores with
  \<^verbatim>\<open>setPredictions\<close> and \<^verbatim>\<open>setBiologicalOutcomes\<close>. The code initialises
  \<^verbatim>\<open>morphology\<close> with the default label and overwrites it in an \<^verbatim>\<open>if / else if\<close>
  chain; it initialises the lineage label and the three lineage scores
  (\<^verbatim>\<open>"Myogenic (intermediate)"\<close>, 50, 50, 50) and overwrites all four in every branch
  of an \<^verbatim>\<open>if / else if / else\<close>, so the initial values are never stored.
\<close>

definition App_useEffect :: "inputs \<Rightarrow> predictions \<times> biologicalOutcomes" where
  "App_useEffect s =
    (let fiberDiameter = max 150 (min 1500
           (400 * viscosityFactor s * voltageFactor s * flowFactor s * distanceFactor s));
         porosity = max 60 (min 95
           (95 - (fiberDiameter / 100) * 2.5 + (voltage s - 17.5) * 0.5));
         poreSize = max 2 (min 15
           ((fiberDiameter / 200) * 1.5 + (porosity / 20)));
         tensileStrength = max 2 (min 32
           (2.5 + (mw s / 100000) * 5.2 + (concentration s - 10) * 0.35
              - (if fiberDiameter > 1000 then 2 else 0)));
         youngsModulus = max 20 (min 85
           (25 + (mw s / 100000) * 60 + (concentration s - 10) * 2.5));
         waterAbsorption = max 350 (min 950
           (950 - (mw s / 100000) * 280 + (porosity - 75) * 8));
         contactAngle = max 35 (min 75
           (45 + (mw s / 100000) * 15 - (porosity - 75) * 0.3));
         degradationRate = max 4 (min 25
           (25 - (mw s / 100000) * 10.5 + (porosity - 75) * 0.15));
         swellingRatio = max 80 (min 100
           (100 - (mw s / 100000) * 8 - (concentration s - 10) * 0.5));
         minConc = (if mw s < 70000 then 6 else (if mw s < 150000 then 8 else 9));
         maxConc = (if mw s < 70000 then 14 else (if mw s < 150000 then 12 else 10.5));
         isInWindow = (concentration s \<ge> minConc \<and> concentration s \<le> maxConc);
         morphology =
           (if mw s < 70000 \<and> concentration s < 9 then ''Beaded fibers (beads-on-string)''
            else if mw s > 150000 \<and> concentration s > 10
              then ''Thick fibers, potential ribbon-like''
            else if mw s \<ge> 100000 \<and> mw s \<le> 150000
              then ''Smooth, uniform, bead-free (optimal)''
            else ''Uniform, bead-free fibers'');
         cellViability = max 85 (min 98
           (92 + (if porosity > 75 then 4 else 0)
               + (if fiberDiameter > 300 \<and> fiberDiameter < 900 then 2 else 0)));
         proliferationTime = max 20 (min 48
           (32 - (porosity - 75) * 0.3 - (if poreSize > 4 then 4 else 0)
               + (if fiberDiameter > 1000 then 6 else 0)));
         gagContent = max 5 (min 45
           (10 + (youngsModulus / 10) + (if poreSize > 6 then 15 else 0)
               + (if fiberDiameter > 800 then 8 else 0)));
         col2Expression = max 1 (min 8
           (1.5 + (youngsModulus / 15) + (if poreSize > 6 then 2.5 else 0)
                + (if mw s > 140000 then 1.5 else 0)));
         aggrecanExpression = max 1 (min 6
           (1.2 + (youngsModulus / 20) + (if poreSize > 6 then 2 else 0)
                + (if fiberDiameter > 800 then 1 else 0)));
         col1_col2_ratio = max 0.1 (min 2.5
           (2.0 - (youngsModulus / 50) - (if poreSize > 6 then 0.8 else 0)
                - (if mw s > 140000 then 0.3 else 0)));
         lineage =
           (if youngsModulus < 35
              then (''Neurogenic (soft substrate)'', 85, 25, 40)
            else if youngsModulus \<ge> 35 \<and> youngsModulus < 60
              then (''Myogenic/Chondrogenic'', 40, 45, 80)
            else (''Osteogenic (stiff substrate)'', 20, 90, 55));
         mscLineage = fst lineage;
         neurogenicScore = fst (snd lineage);
         osteogenicScore = fst (snd (snd lineage));
         chondrogenicScore = snd (snd (snd lineage));
         burstRelease = max 15 (min 75
           (70 - (mw s / 100000) * 25 + (porosity - 75) * 0.8));
         sustainedDuration = max 3 (min 28
           (5 + (mw s / 100000) * 12 - (porosity - 75) * 0.2))
     in (\<lparr>fiberDiameter = fiberDiameter,
          porosity = porosity,
          poreSize = poreSize,
          tensileStrength = tensileStrength,
          youngsModulus = youngsModulus,
          waterAbsorption = waterAbsorption,
          contactAngle = contactAngle,
          degradationRate = degradationRate,
          swellingRatio = swellingRatio,
          morphology = morphology,
          isInWindow = isInWindow,
          minConc = minConc,
          maxConc = maxConc\<rparr>,
         \<lparr>cellViability = cellViability,
          proliferationTime = proliferationTime,
          gagContent = gagContent,
          col2Expression = col2Expression,
          aggrecanExpression = aggrecanExpression,
          col1_col2_ratio = col1_col2_ratio,
          mscLineage = mscLineage,
          osteogenicScore = osteogenicScore,
          chondrogenicScore = chondrogenicScore,
          neurogenicScore = neurogenicScore,
          burstRelease = burstRelease,
          sustainedDuration = sustainedDuration\<rparr>))"

text \<open>The two state variables after the effect has run on the inputs \<open>s\<close>.\<close>

definition predictionsOf :: "inputs \<Rightarrow> predictions" where
  "predictionsOf s = fst (App_useEffect s)"

definition biologicalOutcomesOf :: "inputs \<Rightarrow> biologicalOutcomes" where
  "biologicalOutcomesOf s = snd (App_useEffect s)"

text \<open>
  The initial values of the five \<^verbatim>\<open>useState\<close> calls, which the specification uses as
  its worked example.
\<close>

definition referenceInputs :: inputs where
  "referenceInputs =
     \<lparr>mw = 100000, concentration = 10, voltage = 17.5, flowRate = 1.5, distance = 15\<rparr>"

text \<open>The declared domain of the five sliders (\<^verbatim>\<open>min\<close> and \<^verbatim>\<open>max\<close> of each).\<close>

definition inDomain :: "inputs \<Rightarrow> bool" where
  "inDomain s \<longleftrightarrow>
     30000 \<le> mw s \<and> mw s \<le> 200000 \<and>
     5 \<le> concentration s \<and> concentration s \<le> 20 \<and>
     10 \<le> voltage s \<and> voltage s \<le> 25 \<and>
     0.5 \<le> flowRate s \<and> flowRate s \<le> 3.0 \<and>
     10 \<le> distance s \<and> distance s \<le> 25"

section \<open>Suitability scores\<close>

record applicationScores =
  skinRegeneration :: real
  vascularEngineering :: real
  nerveGuidance :: real
  cartilageRepair :: real
  boneEngineering :: real
  drugDelivery :: real

record cellScores =
  fibroblasts :: real
  endothelial :: real
  schwann :: real
  chondrocytes :: real
  osteoblasts :: real
  stemCells :: real

text \<open>
  Both functions read the stored \<^verbatim>\<open>predictions\<close> object \<open>p\<close>; the page calls them once
  the effect has stored it.
\<close>

definition calculateApplicationScores :: "predictions \<Rightarrow> applicationScores" where
  "calculateApplicationScores p =
    \<lparr>skinRegeneration = min 100
       ((if fiberDiameter p < 600 then 95 else 95 - (fiberDiameter p - 600) / 15) *
        (if porosity p > 80 then 1 else porosity p / 80) *
        (if degradationRate p > 12 then 1 else 0.85)),
     vascularEngineering = min 100
       ((if fiberDiameter p \<ge> 400 \<and> fiberDiameter p \<le> 1200 then 95 else 75) *
        (if tensileStrength p \<ge> 5 \<and> tensileStrength p \<le> 12 then 1 else 0.8) *
        (if porosity p > 70 then 1 else 0.85)),
     nerveGuidance = min 100
       ((if fiberDiameter p \<ge> 500 \<and> fiberDiameter p \<le> 900 then 95 else 80) *
        (if porosity p > 72 then 1 else 0.88) *
        (if degradationRate p \<ge> 6 \<and> degradationRate p \<le> 10 then 1 else 0.85)),
     cartilageRepair = min 100
       ((if fiberDiameter p > 800 then 95 else 70) *
        (if poreSize p > 6 then 1 else 0.75) *
        (if youngsModulus p > 60 then 1 else youngsModulus p / 60) *
        (if degradationRate p < 8 then 1 else 0.8)),
     boneEngineering = min 100
       ((if fiberDiameter p > 1000 then 95 else 80) *
        (if youngsModulus p > 70 then 1 else youngsModulus p / 70) *
        (if degradationRate p < 7 then 1 else 0.85)),
     drugDelivery = min 100
       ((if fiberDiameter p < 500 then 95 else 85) *
        (if porosity p > 82 then 1 else 0.88) *
        (if degradationRate p > 8 then 1 else 0.9))\<rparr>"

definition calculateCellScores :: "predictions \<Rightarrow> cellScores" where
  "calculateCellScores p =
    \<lparr>fibroblasts = min 100
       ((if fiberDiameter p \<ge> 200 \<and> fiberDiameter p \<le> 500 then 95 else 75) *
        (if porosity p > 75 then 1 else 0.85) *
        (if poreSize p \<ge> 3 \<and> poreSize p \<le> 6 then 1 else 0.88)),
     endothelial = min 100
       ((if fiberDiameter p \<ge> 400 \<and> fiberDiameter p \<le> 1000 then 95 else 78) *
        (if porosity p > 70 then 1 else 0.87) *
        (if poreSize p \<ge> 4 \<and> poreSize p \<le> 8 then 1 else 0.85)),
     schwann = min 100
       ((if fiberDiameter p \<ge> 500 \<and> fiberDiameter p \<le> 900 then 95 else 80) *
        (if porosity p > 72 then 1 else 0.88)),
     chondrocytes = min 100
       ((if fiberDiameter p > 800 then 95 else 70) *
        (if poreSize p > 6 then 1 else 0.75) *
        (if youngsModulus p \<ge> 50 \<and> youngsModulus p \<le> 80 then 1 else 0.82)),
     osteoblasts = min 100
       ((if fiberDiameter p > 1000 then 95 else 80) *
        (if youngsModulus p > 70 then 1 else youngsModulus p / 70) *
        (if poreSize p > 7 then 1 else 0.85)),
     stemCells = min 100
       ((if fiberDiameter p \<ge> 400 \<and> fiberDiameter p \<le> 1200 then 95 else 82) *
        (if porosity p > 70 then 1 else 0.88) *
        (if poreSize p \<ge> 5 then 1 else 0.85))\<rparr>"

section \<open>Chart data generators\<close>

text \<open>
  The three generators are closures of the component: each is given here the state it
  can read (the inputs \<open>s\<close>, or the stored predictions \<open>p\<close>), so that what it depends
  on is a property to prove. The fields of the rows carry a suffix where the code
  reuses the name of a prediction.
\<close>

record mwComparisonRow =
  mw_cmp :: real
  fiberDiameter_cmp :: real
  porosity_cmp :: real
  tensileStrength_cmp :: real
  youngsModulus_cmp :: real
  degradationRate_cmp :: real

definition mwValues :: "real list" where
  "mwValues = [30000, 50000, 70000, 100000, 125000, 150000, 175000, 200000]"

definition generateMWComparison :: "inputs \<Rightarrow> mwComparisonRow list" where
  "generateMWComparison s =
     map (\<lambda>mwVal.
       let viscFactor = (mwVal / 100000) * (concentration s / 10);
           fd = 400 * viscFactor;
           por = 95 - (fd / 100) * 2.5;
           ts = 2.5 + (mwVal / 100000) * 5.2 + (concentration s - 10) * 0.35;
           ym = 25 + (mwVal / 100000) * 60 + (concentration s - 10) * 2.5;
           dr = 25 - (mwVal / 100000) * 10.5
       in \<lparr>mw_cmp = mwVal / 1000,
           fiberDiameter_cmp = Math_round fd,
           porosity_cmp = Math_round (por * 10) / 10,
           tensileStrength_cmp = Math_round (ts * 10) / 10,
           youngsModulus_cmp = Math_round ym,
           degradationRate_cmp = Math_round (dr * 10) / 10\<rparr>) mwValues"

record degradationRow =
  week :: real
  massRemaining :: real
  mechanicalRetention :: real
  cellInfiltration :: real

text \<open>\<^verbatim>\<open>Array.from({ length: 17 }, (_, i) => i)\<close>: the weeks 0 to 16.\<close>

definition weeks :: "real list" where
  "weeks = map real [0 ..< 17]"

definition generateDegradationProfile :: "predictions \<Rightarrow> degradationRow list" where
  "generateDegradationProfile p =
     map (\<lambda>week.
       let k = degradationRate p / 100 * 0.15;
           massRemaining = 100 * exp (- k * week);
           mechanicalRetention = 100 * ((1 - week / 20) powr 1.5);
           cellInfiltration = 100 / (1 + exp (- 0.4 * (week - 6)))
       in \<lparr>week = week,
           massRemaining = max 0 (Math_round massRemaining),
           mechanicalRetention = max 0 (Math_round mechanicalRetention),
           cellInfiltration = min 100 (Math_round cellInfiltration)\<rparr>) weeks"

record tradeoffRow =
  mw_pt :: real
  poreSize_pt :: real
  tensileStrength_pt :: real
  current :: bool

text \<open>
  The \<^verbatim>\<open>for\<close> loop of \<^verbatim>\<open>generateTradeoffData\<close>: \<open>testMw\<close> is the loop variable and
  \<open>data\<close> the array built so far; \<^verbatim>\<open>data.push\<close> appends at the end.
\<close>

function tradeoffLoop :: "inputs \<Rightarrow> real \<Rightarrow> tradeoffRow list \<Rightarrow> tradeoffRow list" where
  "tradeoffLoop s testMw data =
     (if testMw \<le> 200000 then
        (let viscFactor = (testMw / 100000) * (concentration s / 10);
             fd = 400 * viscFactor;
             por = 95 - (fd / 100) * 2.5;
             ps = (fd / 200) * 1.5 + (por / 20);
             ts = 2.5 + (testMw / 100000) * 5.2 + (concentration s - 10) * 0.35
         in tradeoffLoop s (testMw + 20000)
              (data @ [\<lparr>mw_pt = testMw / 1000,
                        poreSize_pt = Math_round (ps * 10) / 10,
                        tensileStrength_pt = Math_round (ts * 10) / 10,
                        current = (testMw = mw s)\<rparr>]))
      else data)"
  by pat_completeness auto

text \<open>
  The loop ends: the number of steps of 20000 left up to 220000 decreases with each
  pass.
\<close>

termination
proof (relation "measure (\<lambda>(s, testMw, data). nat \<lceil>(220000 - testMw) / 20000\<rceil>)")
  show "wf (measure (\<lambda>(s, testMw, data). nat \<lceil>(220000 - testMw) / 20000\<rceil>))"
    by simp
next
  fix s :: inputs and testMw :: real and data :: "tradeoffRow list"
    and x xa xb xc xd :: real
  assume le: "testMw \<le> 200000"
  define r where "r = (220000 - testMw) / 20000"
  have eq: "(220000 - (testMw + 20000)) / 20000 = r - 1"
    by (simp add: r_def field_simps)
  have "0 < r"
    using le by (simp add: r_def)
  then have "0 < \<lceil>r\<rceil>"
    by simp
  then have "nat \<lceil>r - 1\<rceil> < nat \<lceil>r\<rceil>"
    by simp
  then have "nat \<lceil>(220000 - (testMw + 20000)) / 20000\<rceil> < nat \<lceil>(220000 - testMw) / 20000\<rceil>"
    unfolding eq r_def .
  then show
    "((s, testMw + 20000,
       data @ [\<lparr>mw_pt = testMw / 1000, poreSize_pt = Math_round (xc * 10) / 10,
                 tensileStrength_pt = Math_round (xd * 10) / 10,
                 current = (testMw = mw s)\<rparr>]),
      (s, testMw, data))
     \<in> measure (\<lambda>(s, testMw, data). nat \<lceil>(220000 - testMw) / 20000\<rceil>)"
    unfolding in_measure prod.case .
qed

definition generateTradeoffData :: "inputs \<Rightarrow> tradeoffRow list" where
  "generateTradeoffData s = tradeoffLoop s 30000 []"

declare tradeoffLoop.simps [simp del]

section \<open>The specification's wording of two classifications\<close>

text \<open>
  The specification gives the morphology as an ordered list of rules of which the first
  matching one wins, with a default. This definition follows the specification's
  words; it is compared below with the \<^verbatim>\<open>if / else if\<close> chain of the code.
\<close>

definition morphologyRules :: "((real \<Rightarrow> real \<Rightarrow> bool) \<times> string) list" where
  "morphologyRules =
     [(\<lambda>m c. m < 70000 \<and> c < 9, ''Beaded fibers (beads-on-string)''),
      (\<lambda>m c. m > 150000 \<and> c > 10, ''Thick fibers, potential ribbon-like''),
      (\<lambda>m c. 100000 \<le> m \<and> m \<le> 150000, ''Smooth, uniform, bead-free (optimal)'')]"

fun firstMatch :: "((real \<Rightarrow> real \<Rightarrow> bool) \<times> string) list \<Rightarrow> real \<Rightarrow> real \<Rightarrow> string" where
  "firstMatch [] m c = ''Uniform, bead-free fibers''"
| "firstMatch ((guard, label) # rules) m c =
     (if guard m c then label else firstMatch rules m c)"

text \<open>
  The specification's reading of the \<^verbatim>\<open>current\<close> flag of the trade-off table: a point
  of the table is a nearest one when no point of the table is closer to the current
  molecular weight \<open>m\<close> (the rows carry the molecular weight in thousands), and the
  table flags the nearest point when \<^verbatim>\<open>current\<close> is true on exactly those rows.
\<close>

definition nearestPoint :: "real \<Rightarrow> tradeoffRow list \<Rightarrow> tradeoffRow \<Rightarrow> bool" where
  "nearestPoint m rows r =
     list_all (\<lambda>r'. \<bar>mw_pt r * 1000 - m\<bar> \<le> \<bar>mw_pt r' * 1000 - m\<bar>) rows"

definition flagsNearest :: "real \<Rightarrow> tradeoffRow list \<Rightarrow> bool" where
  "flagsNearest m rows = list_all (\<lambda>r. current r = nearestPoint m rows r) rows"

section \<open>Reading the effect field by field\<close>

text \<open>
  Each field of the two stored objects, written with the fields it is computed from.
  These are the bindings of \<open>App_useEffect\<close> read off one at a time.
\<close>

lemmas effect_unfold =
  predictionsOf_def biologicalOutcomesOf_def App_useEffect_def Let_def fst_conv snd_conv
  predictions.simps biologicalOutcomes.simps

lemma fiberDiameter_eq:
  "fiberDiameter (predictionsOf s) = max 150 (min 1500
     (400 * viscosityFactor s * voltageFactor s * flowFactor s * distanceFactor s))"
  unfolding effect_unfold ..

lemma porosity_eq:
  "porosity (predictionsOf s) = max 60 (min 95
     (95 - (fiberDiameter (predictionsOf s) / 100) * 2.5 + (voltage s - 17.5) * 0.5))"
  unfolding effect_unfold ..

lemma poreSize_eq:
  "poreSize (predictionsOf s) = max 2 (min 15
     ((fiberDiameter (predictionsOf s) / 200) * 1.5 + (porosity (predictionsOf s) / 20)))"
  unfolding effect_unfold ..

lemma tensileStrength_eq:
  "tensileStrength (predictionsOf s) = max 2 (min 32
     (2.5 + (mw s / 100000) * 5.2 + (concentration s - 10) * 0.35
        - (if fiberDiameter (predictionsOf s) > 1000 then 2 else 0)))"
  unfolding effect_unfold ..

lemma youngsModulus_eq:
  "youngsModulus (predictionsOf s) = max 20 (min 85
     (25 + (mw s / 100000) * 60 + (concentration s - 10) * 2.5))"
  unfolding effect_unfold ..

lemma waterAbsorption_eq:
  "waterAbsorption (predictionsOf s) = max 350 (min 950
     (950 - (mw s / 100000) * 280 + (porosity (predictionsOf s) - 75) * 8))"
  unfolding effect_unfold ..

lemma contactAngle_eq:
  "contactAngle (predictionsOf s) = max 35 (min 75
     (45 + (mw s / 100000) * 15 - (porosity (predictionsOf s) - 75) * 0.3))"
  unfolding effect_unfold ..

lemma degradationRate_eq:
  "degradationRate (predictionsOf s) = max 4 (min 25
     (25 - (mw s / 100000) * 10.5 + (porosity (predictionsOf s) - 75) * 0.15))"
  unfolding effect_unfold ..

lemma swellingRatio_eq:
  "swellingRatio (predictionsOf s) = max 80 (min 100
     (100 - (mw s / 100000) * 8 - (concentration s - 10) * 0.5))"
  unfolding effect_unfold ..

lemma minConc_eq:
  "minConc (predictionsOf s) =
     (if mw s < 70000 then 6 else (if mw s < 150000 then 8 else 9))"
  unfolding effect_unfold ..

lemma maxConc_eq:
  "maxConc (predictionsOf s) =
     (if mw s < 70000 then 14 else (if mw s < 150000 then 12 else 10.5))"
  unfolding effect_unfold ..

lemma isInWindow_eq:
  "isInWindow (predictionsOf s) =
     (concentration s \<ge> minConc (predictionsOf s) \<and> concentration s \<le> maxConc (predictionsOf s))"
  unfolding effect_unfold ..

lemma morphology_eq:
  "morphology (predictionsOf s) =
     (if mw s < 70000 \<and> concentration s < 9 then ''Beaded fibers (beads-on-string)''
      else if mw s > 150000 \<and> concentration s > 10
        then ''Thick fibers, potential ribbon-like''
      else if mw s \<ge> 100000 \<and> mw s \<le> 150000
        then ''Smooth, uniform, bead-free (optimal)''
      else ''Uniform, bead-free fibers'')"
  unfolding effect_unfold ..

lemma cellViability_eq:
  "cellViability (biologicalOutcomesOf s) = max 85 (min 98
     (92 + (if porosity (predictionsOf s) > 75 then 4 else 0)
         + (if fiberDiameter (predictionsOf s) > 300 \<and> fiberDiameter (predictionsOf s) < 900
            then 2 else 0)))"
  unfolding effect_unfold ..

lemma proliferationTime_eq:
  "proliferationTime (biologicalOutcomesOf s) = max 20 (min 48
     (32 - (porosity (predictionsOf s) - 75) * 0.3
         - (if poreSize (predictionsOf s) > 4 then 4 else 0)
         + (if fiberDiameter (predictionsOf s) > 1000 then 6 else 0)))"
  unfolding effect_unfold ..

lemma gagContent_eq:
  "gagContent (biologicalOutcomesOf s) = max 5 (min 45
     (10 + (youngsModulus (predictionsOf s) / 10)
         + (if poreSize (predictionsOf s) > 6 then 15 else 0)
         + (if fiberDiameter (predictionsOf s) > 800 then 8 else 0)))"
  unfolding effect_unfold ..

lemma col2Expression_eq:
  "col2Expression (biologicalOutcomesOf s) = max 1 (min 8
     (1.5 + (youngsModulus (predictionsOf s) / 15)
          + (if poreSize (predictionsOf s) > 6 then 2.5 else 0)
          + (if mw s > 140000 then 1.5 else 0)))"
  unfolding effect_unfold ..

lemma aggrecanExpression_eq:
  "aggrecanExpression (biologicalOutcomesOf s) = max 1 (min 6
     (1.2 + (youngsModulus (predictionsOf s) / 20)
          + (if poreSize (predictionsOf s) > 6 then 2 else 0)
          + (if fiberDiameter (predictionsOf s) > 800 then 1 else 0)))"
  unfolding effect_unfold ..

lemma col1_col2_ratio_eq:
  "col1_col2_ratio (biologicalOutcomesOf s) = max 0.1 (min 2.5
     (2.0 - (youngsModulus (predictionsOf s) / 50)
          - (if poreSize (predictionsOf s) > 6 then 0.8 else 0)
          - (if mw s > 140000 then 0.3 else 0)))"
  unfolding effect_unfold ..

lemma burstRelease_eq:
  "burstRelease (biologicalOutcomesOf s) = max 15 (min 75
     (70 - (mw s / 100000) * 25 + (porosity (predictionsOf s) - 75) * 0.8))"
  unfolding effect_unfold ..

lemma sustainedDuration_eq:
  "sustainedDuration (biologicalOutcomesOf s) = max 3 (min 28
     (5 + (mw s / 100000) * 12 - (porosity (predictionsOf s) - 75) * 0.2))"
  unfolding effect_unfold ..

section \<open>The reference inputs\<close>

text \<open>At the reference inputs all four factors are 1.\<close>

lemma reference_fields:
  "mw referenceInputs = 100000"
  "concentration referenceInputs = 10"
  "voltage referenceInputs = 17.5"
  "flowRate referenceInputs = 1.5"
  "distance referenceInputs = 15"
  by (simp_all add: referenceInputs_def)

lemma reference_factors:
  "viscosityFactor referenceInputs = 1"
  "voltageFactor referenceInputs = 1"
  "flowFactor referenceInputs = 1"
  "distanceFactor referenceInputs = 1"
  by (simp_all add: viscosityFactor_def voltageFactor_def flowFactor_def distanceFactor_def
      reference_fields)

lemma reference_fiberDiameter:
  "fiberDiameter (predictionsOf referenceInputs) = 400"
  by (simp add: fiberDiameter_eq reference_factors)

lemma reference_porosity:
  "porosity (predictionsOf referenceInputs) = 85"
  by (simp add: porosity_eq reference_fiberDiameter reference_fields)

lemma reference_degradationRate:
  "degradationRate (predictionsOf referenceInputs) = 16"
  by (simp add: degradationRate_eq reference_porosity reference_fields)

text \<open>
  Claim C1, as amended. At the reference inputs the porosity is 85, so the porosity
  term of the degradation rate is \<open>(85 - 75) * 0.15 = 1.5\<close> and the stored
  \<open>degradationRate\<close> is \<open>25 - 10.5 + 1.5 = 16\<close>.
\<close>

theorem C1_degradationRate_reference:
  "degradationRate (predictionsOf referenceInputs) = 25 - 10.5 + (85 - 75) * 0.15
   \<and> degradationRate (predictionsOf referenceInputs) = 16"
  by (simp add: reference_degradationRate)

text \<open>
  Claim C1, as stated, fails: the stored \<open>degradationRate\<close> at the reference inputs
  is not \<open>25 - 10.5 = 14.5\<close>.
\<close>

theorem C1_counterexample:
  "degradationRate (predictionsOf referenceInputs) \<noteq> 14.5"
  by (simp add: reference_degradationRate)

text \<open>
  Claim C4. At the reference inputs the four factors are 1, and stage 1 stores
  \<open>fiberDiameter = 400\<close>, \<open>porosity = 85\<close>, \<open>tensileStrength = 7.7\<close>,
  \<open>youngsModulus = 85\<close> (the unclamped value \<open>25 + 60\<close> is the upper bound of the
  clamp) and \<open>swellingRatio = 92\<close>.
\<close>

theorem C4_reference_architecture:
  "viscosityFactor referenceInputs = 1
   \<and> voltageFactor referenceInputs = 1
   \<and> flowFactor referenceInputs = 1
   \<and> distanceFactor referenceInputs = 1
   \<and> fiberDiameter (predictionsOf referenceInputs) = 400
   \<and> porosity (predictionsOf referenceInputs) = 85
   \<and> tensileStrength (predictionsOf referenceInputs) = 7.7
   \<and> youngsModulus (predictionsOf referenceInputs) = 85
   \<and> 25 + (mw referenceInputs / 100000) * 60 + (concentration referenceInputs - 10) * 2.5 = (85 :: real)
   \<and> swellingRatio (predictionsOf referenceInputs) = 92"
  by (simp add: reference_factors reference_fiberDiameter reference_porosity
      tensileStrength_eq youngsModulus_eq swellingRatio_eq reference_fields)

section \<open>Clamp bounds\<close>

lemma clamp_lower: "lo \<le> max lo (min hi (x::real))"
  by simp

lemma clamp_upper: "lo \<le> hi \<Longrightarrow> max lo (min hi (x::real)) \<le> hi"
  by simp

lemma fiberDiameter_range:
  "150 \<le> fiberDiameter (predictionsOf s)" "fiberDiameter (predictionsOf s) \<le> 1500"
  unfolding fiberDiameter_eq by (rule clamp_lower, rule clamp_upper) simp

lemma porosity_range:
  "60 \<le> porosity (predictionsOf s)" "porosity (predictionsOf s) \<le> 95"
  unfolding porosity_eq by (rule clamp_lower, rule clamp_upper) simp

lemma poreSize_range:
  "2 \<le> poreSize (predictionsOf s)" "poreSize (predictionsOf s) \<le> 15"
  unfolding poreSize_eq by (rule clamp_lower, rule clamp_upper) simp

lemma tensileStrength_range:
  "2 \<le> tensileStrength (predictionsOf s)" "tensileStrength (predictionsOf s) \<le> 32"
  unfolding tensileStrength_eq by (rule clamp_lower, rule clamp_upper) simp

lemma youngsModulus_range:
  "20 \<le> youngsModulus (predictionsOf s)" "youngsModulus (predictionsOf s) \<le> 85"
  unfolding youngsModulus_eq by (rule clamp_lower, rule clamp_upper) simp

lemma waterAbsorption_range:
  "350 \<le> waterAbsorption (predictionsOf s)" "waterAbsorption (predictionsOf s) \<le> 950"
  unfolding waterAbsorption_eq by (rule clamp_lower, rule clamp_upper) simp

lemma contactAngle_range:
  "35 \<le> contactAngle (predictionsOf s)" "contactAngle (predictionsOf s) \<le> 75"
  unfolding contactAngle_eq by (rule clamp_lower, rule clamp_upper) simp

lemma degradationRate_range:
  "4 \<le> degradationRate (predictionsOf s)" "degradationRate (predictionsOf s) \<le> 25"
  unfolding degradationRate_eq by (rule clamp_lower, rule clamp_upper) simp

lemma swellingRatio_range:
  "80 \<le> swellingRatio (predictionsOf s)" "swellingRatio (predictionsOf s) \<le> 100"
  unfolding swellingRatio_eq by (rule clamp_lower, rule clamp_upper) simp

lemma cellViability_range:
  "85 \<le> cellViability (biologicalOutcomesOf s)" "cellViability (biologicalOutcomesOf s) \<le> 98"
  unfolding cellViability_eq by (rule clamp_lower, rule clamp_upper) simp

lemma proliferationTime_range:
  "20 \<le> proliferationTime (biologicalOutcomesOf s)"
  "proliferationTime (biologicalOutcomesOf s) \<le> 48"
  unfolding proliferationTime_eq by (rule clamp_lower, rule clamp_upper) simp

lemma gagContent_range:
  "5 \<le> gagContent (biologicalOutcomesOf s)" "gagContent (biologicalOutcomesOf s) \<le> 45"
  unfolding gagContent_eq by (rule clamp_lower, rule clamp_upper) simp

lemma col2Expression_range:
  "1 \<le> col2Expression (biologicalOutcomesOf s)" "col2Expression (biologicalOutcomesOf s) \<le> 8"
  unfolding col2Expression_eq by (rule clamp_lower, rule clamp_upper) simp

lemma aggrecanExpression_range:
  "1 \<le> aggrecanExpression (biologicalOutcomesOf s)"
  "aggrecanExpression (biologicalOutcomesOf s) \<le> 6"
  unfolding aggrecanExpression_eq by (rule clamp_lower, rule clamp_upper) simp

lemma col1_col2_ratio_range:
  "0.1 \<le> col1_col2_ratio (biologicalOutcomesOf s)"
  "col1_col2_ratio (biologicalOutcomesOf s) \<le> 2.5"
  unfolding col1_col2_ratio_eq by (rule clamp_lower, rule clamp_upper) simp

lemma burstRelease_range:
  "15 \<le> burstRelease (biologicalOutcomesOf s)" "burstRelease (biologicalOutcomesOf s) \<le> 75"
  unfolding burstRelease_eq by (rule clamp_lower, rule clamp_upper) simp

lemma sustainedDuration_range:
  "3 \<le> sustainedDuration (biologicalOutcomesOf s)"
  "sustainedDuration (biologicalOutcomesOf s) \<le> 28"
  unfolding sustainedDuration_eq by (rule clamp_lower, rule clamp_upper) simp

lemma reference_inDomain: "inDomain referenceInputs"
  by (simp add: inDomain_def reference_fields)

text \<open>
  Claim C5. For inputs in the declared domains, each of the seventeen numeric quantities
  stored by the two stages lies within its clamp bounds. (The clamps do not depend on
  the domain: the proof does not use the hypothesis.)
\<close>

theorem C5_clamp_bounds:
  assumes "inDomain s"
  shows "150 \<le> fiberDiameter (predictionsOf s) \<and> fiberDiameter (predictionsOf s) \<le> 1500
    \<and> 60 \<le> porosity (predictionsOf s) \<and> porosity (predictionsOf s) \<le> 95
    \<and> 2 \<le> poreSize (predictionsOf s) \<and> poreSize (predictionsOf s) \<le> 15
    \<and> 2 \<le> tensileStrength (predictionsOf s) \<and> tensileStrength (predictionsOf s) \<le> 32
    \<and> 20 \<le> youngsModulus (predictionsOf s) \<and> youngsModulus (predictionsOf s) \<le> 85
    \<and> 350 \<le> waterAbsorption (predictionsOf s) \<and> waterAbsorption (predictionsOf s) \<le> 950
    \<and> 35 \<le> contactAngle (predictionsOf s) \<and> contactAngle (predictionsOf s) \<le> 75
    \<and> 4 \<le> degradationRate (predictionsOf s) \<and> degradationRate (predictionsOf s) \<le> 25
    \<and> 80 \<le> swellingRatio (predictionsOf s) \<and> swellingRatio (predictionsOf s) \<le> 100
    \<and> 85 \<le> cellViability (biologicalOutcomesOf s)
    \<and> cellViability (biologicalOutcomesOf s) \<le> 98
    \<and> 20 \<le> proliferationTime (biologicalOutcomesOf s)
    \<and> proliferationTime (biologicalOutcomesOf s) \<le> 48
    \<and> 5 \<le> gagContent (biologicalOutcomesOf s) \<and> gagContent (biologicalOutcomesOf s) \<le> 45
    \<and> 1 \<le> col2Expression (biologicalOutcomesOf s)
    \<and> col2Expression (biologicalOutcomesOf s) \<le> 8
    \<and> 1 \<le> aggrecanExpression (biologicalOutcomesOf s)
    \<and> aggrecanExpression (biologicalOutcomesOf s) \<le> 6
    \<and> 0.1 \<le> col1_col2_ratio (biologicalOutcomesOf s)
    \<and> col1_col2_ratio (biologicalOutcomesOf s) \<le> 2.5
    \<and> 15 \<le> burstRelease (biologicalOutcomesOf s)
    \<and> burstRelease (biologicalOutcomesOf s) \<le> 75
    \<and> 3 \<le> sustainedDuration (biologicalOutcomesOf s)
    \<and> sustainedDuration (biologicalOutcomesOf s) \<le> 28"
  by (intro conjI fiberDiameter_range porosity_range poreSize_range tensileStrength_range
      youngsModulus_range waterAbsorption_range contactAngle_range degradationRate_range
      swellingRatio_range cellViability_range proliferationTime_range gagContent_range
      col2Expression_range aggrecanExpression_range col1_col2_ratio_range
      burstRelease_range sustainedDuration_range)

theorem C5_clamp_bounds_witness:
  "inDomain referenceInputs
    \<and> 150 \<le> fiberDiameter (predictionsOf referenceInputs)
    \<and> fiberDiameter (predictionsOf referenceInputs) \<le> 1500
    \<and> 20 \<le> youngsModulus (predictionsOf referenceInputs)
    \<and> youngsModulus (predictionsOf referenceInputs) \<le> 85
    \<and> 85 \<le> cellViability (biologicalOutcomesOf referenceInputs)
    \<and> cellViability (biologicalOutcomesOf referenceInputs) \<le> 98
    \<and> 3 \<le> sustainedDuration (biologicalOutcomesOf referenceInputs)
    \<and> sustainedDuration (biologicalOutcomesOf referenceInputs) \<le> 28"
  using C5_clamp_bounds [OF reference_inDomain] reference_inDomain by simp

text \<open>
  Claim C10. For every input the unclamped cell viability
  \<open>92 + (porosity > 75 ? 4 : 0) + (300 < fiberDiameter < 900 ? 2 : 0)\<close> is one of 92, 94,
  96 and 98, so neither clamp changes it: the stored \<open>cellViability\<close> is the unclamped
  value, and it is at least 92, above the lower bound 85.
\<close>

theorem C10_cellViability_values:
  "cellViability (biologicalOutcomesOf s) =
     92 + (if porosity (predictionsOf s) > 75 then 4 else 0)
        + (if fiberDiameter (predictionsOf s) > 300 \<and> fiberDiameter (predictionsOf s) < 900
           then 2 else 0)
   \<and> 92 + (if porosity (predictionsOf s) > 75 then 4 else 0)
        + (if fiberDiameter (predictionsOf s) > 300 \<and> fiberDiameter (predictionsOf s) < 900
           then 2 else 0) \<in> {92, 94, 96, 98 :: real}
   \<and> 92 \<le> cellViability (biologicalOutcomesOf s)
   \<and> 85 < cellViability (biologicalOutcomesOf s)"
  by (simp add: cellViability_eq)

section \<open>Classifications\<close>

text \<open>
  Claim C7. The concentration window is chosen by the tier of the molecular weight,
  and \<open>isInWindow\<close> is true exactly when the concentration lies in the closed interval
  from \<open>minConc\<close> to \<open>maxConc\<close>.
\<close>

theorem C7_concentration_window:
  "(mw s < 70000 \<longrightarrow> minConc (predictionsOf s) = 6 \<and> maxConc (predictionsOf s) = 14)
   \<and> (70000 \<le> mw s \<and> mw s < 150000 \<longrightarrow>
        minConc (predictionsOf s) = 8 \<and> maxConc (predictionsOf s) = 12)
   \<and> (150000 \<le> mw s \<longrightarrow>
        minConc (predictionsOf s) = 9 \<and> maxConc (predictionsOf s) = 10.5)
   \<and> (isInWindow (predictionsOf s) \<longleftrightarrow>
        minConc (predictionsOf s) \<le> concentration s
        \<and> concentration s \<le> maxConc (predictionsOf s))"
  by (simp add: minConc_eq maxConc_eq isInWindow_eq)

theorem C7_concentration_window_witness:
  "mw (referenceInputs\<lparr>mw := 60000, concentration := 14\<rparr>) < 70000
   \<and> minConc (predictionsOf (referenceInputs\<lparr>mw := 60000, concentration := 14\<rparr>)) = 6
   \<and> maxConc (predictionsOf (referenceInputs\<lparr>mw := 60000, concentration := 14\<rparr>)) = 14
   \<and> isInWindow (predictionsOf (referenceInputs\<lparr>mw := 60000, concentration := 14\<rparr>))
   \<and> 70000 \<le> mw (referenceInputs\<lparr>mw := 70000, concentration := 8\<rparr>)
   \<and> mw (referenceInputs\<lparr>mw := 70000, concentration := 8\<rparr>) < 150000
   \<and> minConc (predictionsOf (referenceInputs\<lparr>mw := 70000, concentration := 8\<rparr>)) = 8
   \<and> maxConc (predictionsOf (referenceInputs\<lparr>mw := 70000, concentration := 8\<rparr>)) = 12
   \<and> isInWindow (predictionsOf (referenceInputs\<lparr>mw := 70000, concentration := 8\<rparr>))
   \<and> 150000 \<le> mw (referenceInputs\<lparr>mw := 150000, concentration := 11\<rparr>)
   \<and> minConc (predictionsOf (referenceInputs\<lparr>mw := 150000, concentration := 11\<rparr>)) = 9
   \<and> maxConc (predictionsOf (referenceInputs\<lparr>mw := 150000, concentration := 11\<rparr>)) = 10.5
   \<and> \<not> isInWindow (predictionsOf (referenceInputs\<lparr>mw := 150000, concentration := 11\<rparr>))"
  using C7_concentration_window [of "referenceInputs\<lparr>mw := 60000, concentration := 14\<rparr>"]
    C7_concentration_window [of "referenceInputs\<lparr>mw := 70000, concentration := 8\<rparr>"]
    C7_concentration_window [of "referenceInputs\<lparr>mw := 150000, concentration := 11\<rparr>"]
  by simp

lemma mscLineage_eq:
  "mscLineage (biologicalOutcomesOf s) =
     (if youngsModulus (predictionsOf s) < 35 then ''Neurogenic (soft substrate)''
      else if youngsModulus (predictionsOf s) \<ge> 35 \<and> youngsModulus (predictionsOf s) < 60
        then ''Myogenic/Chondrogenic''
      else ''Osteogenic (stiff substrate)'')"
  unfolding effect_unfold by simp

lemma neurogenicScore_eq:
  "neurogenicScore (biologicalOutcomesOf s) =
     (if youngsModulus (predictionsOf s) < 35 then 85
      else if youngsModulus (predictionsOf s) \<ge> 35 \<and> youngsModulus (predictionsOf s) < 60
        then 40
      else 20)"
  unfolding effect_unfold by simp

lemma osteogenicScore_eq:
  "osteogenicScore (biologicalOutcomesOf s) =
     (if youngsModulus (predictionsOf s) < 35 then 25
      else if youngsModulus (predictionsOf s) \<ge> 35 \<and> youngsModulus (predictionsOf s) < 60
        then 45
      else 90)"
  unfolding effect_unfold by simp

lemma chondrogenicScore_eq:
  "chondrogenicScore (biologicalOutcomesOf s) =
     (if youngsModulus (predictionsOf s) < 35 then 40
      else if youngsModulus (predictionsOf s) \<ge> 35 \<and> youngsModulus (predictionsOf s) < 60
        then 80
      else 55)"
  unfolding effect_unfold by simp

text \<open>
  Claim C8. The lineage is a three-way threshold on the stored \<open>youngsModulus\<close>: below
  35 the neurogenic label with scores 85, 25, 40 (neurogenic, osteogenic,
  chondrogenic); from 35 up to, not including, 60 the myogenic/chondrogenic label with
  40, 45, 80; from 60 on, 60 included, the osteogenic label with 20, 90, 55.
\<close>

theorem C8_msc_lineage:
  "(youngsModulus (predictionsOf s) < 35 \<longrightarrow>
      mscLineage (biologicalOutcomesOf s) = ''Neurogenic (soft substrate)''
      \<and> neurogenicScore (biologicalOutcomesOf s) = 85
      \<and> osteogenicScore (biologicalOutcomesOf s) = 25
      \<and> chondrogenicScore (biologicalOutcomesOf s) = 40)
   \<and> (35 \<le> youngsModulus (predictionsOf s) \<and> youngsModulus (predictionsOf s) < 60 \<longrightarrow>
      mscLineage (biologicalOutcomesOf s) = ''Myogenic/Chondrogenic''
      \<and> neurogenicScore (biologicalOutcomesOf s) = 40
      \<and> osteogenicScore (biologicalOutcomesOf s) = 45
      \<and> chondrogenicScore (biologicalOutcomesOf s) = 80)
   \<and> (60 \<le> youngsModulus (predictionsOf s) \<longrightarrow>
      mscLineage (biologicalOutcomesOf s) = ''Osteogenic (stiff substrate)''
      \<and> neurogenicScore (biologicalOutcomesOf s) = 20
      \<and> osteogenicScore (biologicalOutcomesOf s) = 90
      \<and> chondrogenicScore (biologicalOutcomesOf s) = 55)"
  by (simp add: mscLineage_eq neurogenicScore_eq osteogenicScore_eq chondrogenicScore_eq)

theorem C8_msc_lineage_witness:
  "youngsModulus (predictionsOf (referenceInputs\<lparr>mw := 30000, concentration := 5\<rparr>)) < 35
   \<and> mscLineage (biologicalOutcomesOf (referenceInputs\<lparr>mw := 30000, concentration := 5\<rparr>))
       = ''Neurogenic (soft substrate)''
   \<and> neurogenicScore (biologicalOutcomesOf (referenceInputs\<lparr>mw := 30000, concentration := 5\<rparr>))
       = 85
   \<and> 35 \<le> youngsModulus (predictionsOf (referenceInputs\<lparr>mw := 50000\<rparr>))
   \<and> youngsModulus (predictionsOf (referenceInputs\<lparr>mw := 50000\<rparr>)) < 60
   \<and> mscLineage (biologicalOutcomesOf (referenceInputs\<lparr>mw := 50000\<rparr>))
       = ''Myogenic/Chondrogenic''
   \<and> chondrogenicScore (biologicalOutcomesOf (referenceInputs\<lparr>mw := 50000\<rparr>)) = 80
   \<and> youngsModulus (predictionsOf (referenceInputs\<lparr>mw := 50000, concentration := 12\<rparr>)) = 60
   \<and> mscLineage (biologicalOutcomesOf (referenceInputs\<lparr>mw := 50000, concentration := 12\<rparr>))
       = ''Osteogenic (stiff substrate)''
   \<and> osteogenicScore (biologicalOutcomesOf (referenceInputs\<lparr>mw := 50000, concentration := 12\<rparr>))
       = 90"
proof -
  have low: "youngsModulus (predictionsOf (referenceInputs\<lparr>mw := 30000, concentration := 5\<rparr>)) < 35"
    by (simp add: youngsModulus_eq reference_fields)
  have mid: "youngsModulus (predictionsOf (referenceInputs\<lparr>mw := 50000\<rparr>)) = 55"
    by (simp add: youngsModulus_eq reference_fields)
  have high: "youngsModulus (predictionsOf (referenceInputs\<lparr>mw := 50000, concentration := 12\<rparr>)) = 60"
    by (simp add: youngsModulus_eq reference_fields)
  show ?thesis
    using C8_msc_lineage [of "referenceInputs\<lparr>mw := 30000, concentration := 5\<rparr>"]
      C8_msc_lineage [of "referenceInputs\<lparr>mw := 50000\<rparr>"]
      C8_msc_lineage [of "referenceInputs\<lparr>mw := 50000, concentration := 12\<rparr>"]
      low mid high
    by simp
qed

text \<open>
  Claim C6. The stored morphology is the label of the first matching rule, in the order:
  \<open>mw < 70000\<close> and \<open>concentration < 9\<close>, beaded; \<open>mw > 150000\<close> and
  \<open>concentration > 10\<close>, thick or ribbon-like; \<open>100000 \<le> mw \<le> 150000\<close>, optimal
  uniform; otherwise the default uniform bead-free label. So \<open>mw = 60000\<close> with
  concentration 8 is beaded, \<open>mw = 120000\<close> with a concentration from 8 to 12 is optimal
  uniform, and \<open>mw = 180000\<close> with concentration 12 is thick or ribbon-like.
\<close>

theorem C6_morphology:
  "morphology (predictionsOf s) = firstMatch morphologyRules (mw s) (concentration s)
   \<and> morphology (predictionsOf s) =
       (if mw s < 70000 \<and> concentration s < 9 then ''Beaded fibers (beads-on-string)''
        else if mw s > 150000 \<and> concentration s > 10
          then ''Thick fibers, potential ribbon-like''
        else if 100000 \<le> mw s \<and> mw s \<le> 150000
          then ''Smooth, uniform, bead-free (optimal)''
        else ''Uniform, bead-free fibers'')
   \<and> (mw s = 60000 \<and> concentration s = 8 \<longrightarrow>
        morphology (predictionsOf s) = ''Beaded fibers (beads-on-string)'')
   \<and> (mw s = 120000 \<and> 8 \<le> concentration s \<and> concentration s \<le> 12 \<longrightarrow>
        morphology (predictionsOf s) = ''Smooth, uniform, bead-free (optimal)'')
   \<and> (mw s = 180000 \<and> concentration s = 12 \<longrightarrow>
        morphology (predictionsOf s) = ''Thick fibers, potential ribbon-like'')"
  by (simp add: morphology_eq morphologyRules_def)

theorem C6_morphology_witness:
  "mw (referenceInputs\<lparr>mw := 60000, concentration := 8\<rparr>) = 60000
   \<and> concentration (referenceInputs\<lparr>mw := 60000, concentration := 8\<rparr>) = 8
   \<and> morphology (predictionsOf (referenceInputs\<lparr>mw := 60000, concentration := 8\<rparr>))
     = ''Beaded fibers (beads-on-string)''
   \<and> mw (referenceInputs\<lparr>mw := 120000, concentration := 8\<rparr>) = 120000
   \<and> 8 \<le> concentration (referenceInputs\<lparr>mw := 120000, concentration := 8\<rparr>)
   \<and> concentration (referenceInputs\<lparr>mw := 120000, concentration := 8\<rparr>) \<le> 12
   \<and> morphology (predictionsOf (referenceInputs\<lparr>mw := 120000, concentration := 8\<rparr>))
     = ''Smooth, uniform, bead-free (optimal)''
   \<and> mw (referenceInputs\<lparr>mw := 180000, concentration := 12\<rparr>) = 180000
   \<and> concentration (referenceInputs\<lparr>mw := 180000, concentration := 12\<rparr>) = 12
   \<and> morphology (predictionsOf (referenceInputs\<lparr>mw := 180000, concentration := 12\<rparr>))
     = ''Thick fibers, potential ribbon-like''
   \<and> morphology (predictionsOf (referenceInputs\<lparr>mw := 80000\<rparr>))
     = ''Uniform, bead-free fibers''"
  using C6_morphology [of "referenceInputs\<lparr>mw := 60000, concentration := 8\<rparr>"]
    C6_morphology [of "referenceInputs\<lparr>mw := 120000, concentration := 8\<rparr>"]
    C6_morphology [of "referenceInputs\<lparr>mw := 180000, concentration := 12\<rparr>"]
    C6_morphology [of "referenceInputs\<lparr>mw := 80000\<rparr>"]
  by (simp add: reference_fields morphologyRules_def)

section \<open>Suitability scores lie between 0 and 100\<close>

lemma min100: "0 \<le> x \<Longrightarrow> 0 \<le> min 100 (x::real) \<and> min 100 x \<le> 100"
  by simp

lemma applicationScores_range:
  assumes fd: "150 \<le> fiberDiameter p" "fiberDiameter p \<le> 1500"
    and por: "0 \<le> porosity p" and ym: "0 \<le> youngsModulus p"
  shows "0 \<le> skinRegeneration (calculateApplicationScores p) \<and> skinRegeneration (calculateApplicationScores p) \<le> 100"
    and "0 \<le> vascularEngineering (calculateApplicationScores p) \<and> vascularEngineering (calculateApplicationScores p) \<le> 100"
    and "0 \<le> nerveGuidance (calculateApplicationScores p) \<and> nerveGuidance (calculateApplicationScores p) \<le> 100"
    and "0 \<le> cartilageRepair (calculateApplicationScores p) \<and> cartilageRepair (calculateApplicationScores p) \<le> 100"
    and "0 \<le> boneEngineering (calculateApplicationScores p) \<and> boneEngineering (calculateApplicationScores p) \<le> 100"
    and "0 \<le> drugDelivery (calculateApplicationScores p) \<and> drugDelivery (calculateApplicationScores p) \<le> 100"
proof -
  have skin: "0 \<le> (if fiberDiameter p < 600 then 95 else 95 - (fiberDiameter p - 600) / 15)"
    using fd by simp
  have porf: "0 \<le> (if porosity p > c then 1 else porosity p / c)" if "0 < c" for c
    using por that by simp
  have ymf: "0 \<le> (if youngsModulus p > c then 1 else youngsModulus p / c)" if "0 < c" for c
    using ym that by simp
  show "0 \<le> skinRegeneration (calculateApplicationScores p) \<and> skinRegeneration (calculateApplicationScores p) \<le> 100"
    unfolding calculateApplicationScores_def applicationScores.simps
    by (intro min100 mult_nonneg_nonneg skin porf) simp_all
  show "0 \<le> vascularEngineering (calculateApplicationScores p) \<and> vascularEngineering (calculateApplicationScores p) \<le> 100"
    unfolding calculateApplicationScores_def applicationScores.simps
    by (intro min100 mult_nonneg_nonneg) simp_all
  show "0 \<le> nerveGuidance (calculateApplicationScores p) \<and> nerveGuidance (calculateApplicationScores p) \<le> 100"
    unfolding calculateApplicationScores_def applicationScores.simps
    by (intro min100 mult_nonneg_nonneg) simp_all
  show "0 \<le> cartilageRepair (calculateApplicationScores p) \<and> cartilageRepair (calculateApplicationScores p) \<le> 100"
    unfolding calculateApplicationScores_def applicationScores.simps
    by (intro min100 mult_nonneg_nonneg ymf) simp_all
  show "0 \<le> boneEngineering (calculateApplicationScores p) \<and> boneEngineering (calculateApplicationScores p) \<le> 100"
    unfolding calculateApplicationScores_def applicationScores.simps
    by (intro min100 mult_nonneg_nonneg ymf) simp_all
  show "0 \<le> drugDelivery (calculateApplicationScores p) \<and> drugDelivery (calculateApplicationScores p) \<le> 100"
    unfolding calculateApplicationScores_def applicationScores.simps
    by (intro min100 mult_nonneg_nonneg) simp_all
qed

lemma cellScores_range:
  assumes ym: "0 \<le> youngsModulus p"
  shows "0 \<le> fibroblasts (calculateCellScores p) \<and> fibroblasts (calculateCellScores p) \<le> 100"
    and "0 \<le> endothelial (calculateCellScores p) \<and> endothelial (calculateCellScores p) \<le> 100"
    and "0 \<le> schwann (calculateCellScores p) \<and> schwann (calculateCellScores p) \<le> 100"
    and "0 \<le> chondrocytes (calculateCellScores p) \<and> chondrocytes (calculateCellScores p) \<le> 100"
    and "0 \<le> osteoblasts (calculateCellScores p) \<and> osteoblasts (calculateCellScores p) \<le> 100"
    and "0 \<le> stemCells (calculateCellScores p) \<and> stemCells (calculateCellScores p) \<le> 100"
proof -
  have ymf: "0 \<le> (if youngsModulus p > c then 1 else youngsModulus p / c)" if "0 < c" for c
    using ym that by simp
  show "0 \<le> fibroblasts (calculateCellScores p) \<and> fibroblasts (calculateCellScores p) \<le> 100"
    unfolding calculateCellScores_def cellScores.simps
    by (intro min100 mult_nonneg_nonneg) simp_all
  show "0 \<le> endothelial (calculateCellScores p) \<and> endothelial (calculateCellScores p) \<le> 100"
    unfolding calculateCellScores_def cellScores.simps
    by (intro min100 mult_nonneg_nonneg) simp_all
  show "0 \<le> schwann (calculateCellScores p) \<and> schwann (calculateCellScores p) \<le> 100"
    unfolding calculateCellScores_def cellScores.simps
    by (intro min100 mult_nonneg_nonneg) simp_all
  show "0 \<le> chondrocytes (calculateCellScores p) \<and> chondrocytes (calculateCellScores p) \<le> 100"
    unfolding calculateCellScores_def cellScores.simps
    by (intro min100 mult_nonneg_nonneg) simp_all
  show "0 \<le> osteoblasts (calculateCellScores p) \<and> osteoblasts (calculateCellScores p) \<le> 100"
    unfolding calculateCellScores_def cellScores.simps
    by (intro min100 mult_nonneg_nonneg ymf) simp_all
  show "0 \<le> stemCells (calculateCellScores p) \<and> stemCells (calculateCellScores p) \<le> 100"
    unfolding calculateCellScores_def cellScores.simps
    by (intro min100 mult_nonneg_nonneg) simp_all
qed

text \<open>
  Claim C9. For inputs in the declared domains, each of the six application scores and
  each of the six cell scores computed from the stored predictions lies between 0 and
  100: every factor of the product is non-negative (the fibre diameter is at most 1500,
  so the skin factor \<open>95 - (fiberDiameter - 600) / 15\<close> is at least 35), and the product is
  capped at 100.
\<close>

theorem C9_scores_range:
  assumes "inDomain s"
  shows "(0 \<le> skinRegeneration (calculateApplicationScores (predictionsOf s))
      \<and> skinRegeneration (calculateApplicationScores (predictionsOf s)) \<le> 100)
    \<and> (0 \<le> vascularEngineering (calculateApplicationScores (predictionsOf s))
      \<and> vascularEngineering (calculateApplicationScores (predictionsOf s)) \<le> 100)
    \<and> (0 \<le> nerveGuidance (calculateApplicationScores (predictionsOf s))
      \<and> nerveGuidance (calculateApplicationScores (predictionsOf s)) \<le> 100)
    \<and> (0 \<le> cartilageRepair (calculateApplicationScores (predictionsOf s))
      \<and> cartilageRepair (calculateApplicationScores (predictionsOf s)) \<le> 100)
    \<and> (0 \<le> boneEngineering (calculateApplicationScores (predictionsOf s))
      \<and> boneEngineering (calculateApplicationScores (predictionsOf s)) \<le> 100)
    \<and> (0 \<le> drugDelivery (calculateApplicationScores (predictionsOf s))
      \<and> drugDelivery (calculateApplicationScores (predictionsOf s)) \<le> 100)
    \<and> (0 \<le> fibroblasts (calculateCellScores (predictionsOf s))
      \<and> fibroblasts (calculateCellScores (predictionsOf s)) \<le> 100)
    \<and> (0 \<le> endothelial (calculateCellScores (predictionsOf s))
      \<and> endothelial (calculateCellScores (predictionsOf s)) \<le> 100)
    \<and> (0 \<le> schwann (calculateCellScores (predictionsOf s))
      \<and> schwann (calculateCellScores (predictionsOf s)) \<le> 100)
    \<and> (0 \<le> chondrocytes (calculateCellScores (predictionsOf s))
      \<and> chondrocytes (calculateCellScores (predictionsOf s)) \<le> 100)
    \<and> (0 \<le> osteoblasts (calculateCellScores (predictionsOf s))
      \<and> osteoblasts (calculateCellScores (predictionsOf s)) \<le> 100)
    \<and> (0 \<le> stemCells (calculateCellScores (predictionsOf s))
      \<and> stemCells (calculateCellScores (predictionsOf s)) \<le> 100)"
proof -
  have fd: "150 \<le> fiberDiameter (predictionsOf s)" "fiberDiameter (predictionsOf s) \<le> 1500"
    by (rule fiberDiameter_range)+
  have por: "0 \<le> porosity (predictionsOf s)"
    using porosity_range(1) [of s] by simp
  have ym: "0 \<le> youngsModulus (predictionsOf s)"
    using youngsModulus_range(1) [of s] by simp
  show ?thesis
    by (intro conjI applicationScores_range [OF fd por ym, THEN conjunct1]
        applicationScores_range [OF fd por ym, THEN conjunct2]
        cellScores_range [OF ym, THEN conjunct1] cellScores_range [OF ym, THEN conjunct2])
qed

theorem C9_scores_range_witness:
  "inDomain referenceInputs
    \<and> 0 \<le> skinRegeneration (calculateApplicationScores (predictionsOf referenceInputs))
    \<and> skinRegeneration (calculateApplicationScores (predictionsOf referenceInputs)) \<le> 100
    \<and> 0 \<le> cartilageRepair (calculateApplicationScores (predictionsOf referenceInputs))
    \<and> cartilageRepair (calculateApplicationScores (predictionsOf referenceInputs)) \<le> 100
    \<and> 0 \<le> osteoblasts (calculateCellScores (predictionsOf referenceInputs))
    \<and> osteoblasts (calculateCellScores (predictionsOf referenceInputs)) \<le> 100
    \<and> 0 \<le> stemCells (calculateCellScores (predictionsOf referenceInputs))
    \<and> stemCells (calculateCellScores (predictionsOf referenceInputs)) \<le> 100"
  using C9_scores_range [OF reference_inDomain] reference_inDomain by simp

section \<open>Chart data: the trade-off table and what the generators read\<close>

text \<open>The loop reads the inputs only through \<open>concentration\<close> and \<open>mw\<close>.\<close>

lemma tradeoffLoop_reads:
  "concentration s1 = concentration s2 \<Longrightarrow> mw s1 = mw s2 \<Longrightarrow>
     tradeoffLoop s1 testMw data = tradeoffLoop s2 testMw data"
proof (induction s1 testMw data rule: tradeoffLoop.induct)
  case (1 s testMw data)
  show ?case
  proof (cases "testMw \<le> 200000")
    case True
    note IH = "1.IH" [OF True refl refl refl refl refl "1.prems"]
    show ?thesis
      unfolding tradeoffLoop.simps [of s testMw data] tradeoffLoop.simps [of s2 testMw data] Let_def
      using IH True "1.prems" by simp
  next
    case False
    then show ?thesis
      by (simp add: tradeoffLoop.simps [of s testMw data] tradeoffLoop.simps [of s2 testMw data])
  qed
qed

text \<open>
  The loop runs for \<open>testMw = 30000, 50000, \<dots>, 190000\<close>: nine rows (the next value,
  210000, is beyond the bound 200000).
\<close>

lemma tradeoff_mw_pt:
  "map mw_pt (generateTradeoffData s) = [30, 50, 70, 90, 110, 130, 150, 170, 190]"
  by (simp add: generateTradeoffData_def tradeoffLoop.simps Let_def)

lemma tradeoff_current:
  "map current (generateTradeoffData s) =
     map (\<lambda>testMw. testMw = mw s) [30000, 50000, 70000, 90000, 110000, 130000, 150000, 170000, 190000]"
  by (simp add: generateTradeoffData_def tradeoffLoop.simps Let_def)

text \<open>
  The flag is \<^verbatim>\<open>testMw === mw\<close>. When the current molecular weight is one of the nine
  values of the sweep, the flagged point is the nearest one; otherwise no point is
  flagged. The slider moves in steps of 10000 from 30000 to 200000, so the second case
  is every other stop of the slider: 40000, 60000, \<dots>, 200000.
\<close>

lemma flagsNearest_on_sweep:
  "mw s \<in> set [30000, 50000, 70000, 90000, 110000, 130000, 150000, 170000, 190000] \<Longrightarrow>
     flagsNearest (mw s) (generateTradeoffData s)"
  by (auto simp add: generateTradeoffData_def tradeoffLoop.simps Let_def flagsNearest_def
      nearestPoint_def)

lemma no_flag_off_sweep:
  "mw s \<notin> set [30000, 50000, 70000, 90000, 110000, 130000, 150000, 170000, 190000] \<Longrightarrow>
     filter current (generateTradeoffData s) = []"
  by (simp add: generateTradeoffData_def tradeoffLoop.simps Let_def)

text \<open>
  Claim C3 does not hold of the code. The page draws the flagged point in red under the
  caption \<^verbatim>\<open>Current selection\<close>, so a point is meant to be flagged at every stop of the
  slider, as the claim says. At \<open>mw = 200000\<close>, the upper end of the domain, the only
  nearest point of the table is 190k, and the code flags no point; it flags none at the
  reference inputs (\<open>mw = 100000\<close>) either.
\<close>

theorem C3_nearest_point_not_flagged:
  "30000 \<le> mw (referenceInputs\<lparr>mw := 200000\<rparr>)
   \<and> mw (referenceInputs\<lparr>mw := 200000\<rparr>) \<le> 200000
   \<and> \<not> flagsNearest (mw (referenceInputs\<lparr>mw := 200000\<rparr>))
         (generateTradeoffData (referenceInputs\<lparr>mw := 200000\<rparr>))
   \<and> map mw_pt (filter (nearestPoint 200000 (generateTradeoffData (referenceInputs\<lparr>mw := 200000\<rparr>)))
         (generateTradeoffData (referenceInputs\<lparr>mw := 200000\<rparr>))) = [190]
   \<and> filter current (generateTradeoffData (referenceInputs\<lparr>mw := 200000\<rparr>)) = []
   \<and> filter current (generateTradeoffData referenceInputs) = []"
  by (simp add: generateTradeoffData_def tradeoffLoop.simps Let_def flagsNearest_def
      nearestPoint_def reference_fields)

text \<open>What each generator reads of the state.\<close>

lemma generateMWComparison_reads:
  "concentration s1 = concentration s2 \<Longrightarrow> generateMWComparison s1 = generateMWComparison s2"
  by (simp add: generateMWComparison_def)

lemma generateTradeoffData_reads:
  "concentration s1 = concentration s2 \<Longrightarrow> mw s1 = mw s2 \<Longrightarrow>
     generateTradeoffData s1 = generateTradeoffData s2"
  unfolding generateTradeoffData_def by (rule tradeoffLoop_reads)

lemma generateDegradationProfile_reads:
  "degradationRate p1 = degradationRate p2 \<Longrightarrow>
     generateDegradationProfile p1 = generateDegradationProfile p2"
  by (simp add: generateDegradationProfile_def)

text \<open>
  In the trade-off table the three numeric columns follow the concentration alone, and
  the \<open>current\<close> column the molecular weight alone.
\<close>

lemma tradeoff_columns_reads:
  assumes "concentration s1 = concentration s2"
  shows "map mw_pt (generateTradeoffData s1) = map mw_pt (generateTradeoffData s2)"
    and "map poreSize_pt (generateTradeoffData s1) = map poreSize_pt (generateTradeoffData s2)"
    and "map tensileStrength_pt (generateTradeoffData s1)
           = map tensileStrength_pt (generateTradeoffData s2)"
  using assms by (simp_all add: generateTradeoffData_def tradeoffLoop.simps Let_def)

lemma tradeoff_current_reads:
  "mw s1 = mw s2 \<Longrightarrow>
     map current (generateTradeoffData s1) = map current (generateTradeoffData s2)"
  by (simp add: tradeoff_current)

text \<open>Two inputs with different porosity whose degradation rate is at the lower clamp.\<close>

lemma degradationRate_lower_clamp:
  "degradationRate (predictionsOf (referenceInputs\<lparr>mw := 200000\<rparr>)) = 4"
  "degradationRate (predictionsOf (referenceInputs\<lparr>mw := 200000, flowRate := 2.5\<rparr>)) = 4"
  by (simp_all add: degradationRate_eq porosity_eq fiberDiameter_eq viscosityFactor_def
      voltageFactor_def flowFactor_def distanceFactor_def reference_fields max_def min_def)

text \<open>
  Claim C2, as amended. The comparison table depends on the inputs only through the
  concentration, and so do the three numeric columns of the trade-off table (\<open>mw\<close>,
  \<open>poreSize\<close>, \<open>tensileStrength\<close>): the sweep does not follow the current molecular
  weight. The \<open>current\<close> column of the trade-off table depends only on the current
  molecular weight, so the whole table is fixed by the concentration and the molecular
  weight. The degradation profile depends on the stored predictions only through
  \<open>degradationRate\<close>, which the effect computes from the molecular weight and the
  porosity.
\<close>

theorem C2_generator_dependencies:
  "(concentration s1 = concentration s2 \<longrightarrow>
      generateMWComparison s1 = generateMWComparison s2
      \<and> map mw_pt (generateTradeoffData s1) = map mw_pt (generateTradeoffData s2)
      \<and> map poreSize_pt (generateTradeoffData s1) = map poreSize_pt (generateTradeoffData s2)
      \<and> map tensileStrength_pt (generateTradeoffData s1)
           = map tensileStrength_pt (generateTradeoffData s2))
   \<and> (mw s1 = mw s2 \<longrightarrow>
      map current (generateTradeoffData s1) = map current (generateTradeoffData s2))
   \<and> (concentration s1 = concentration s2 \<and> mw s1 = mw s2 \<longrightarrow>
      generateTradeoffData s1 = generateTradeoffData s2)
   \<and> (degradationRate p1 = degradationRate p2 \<longrightarrow>
      generateDegradationProfile p1 = generateDegradationProfile p2)"
  using generateMWComparison_reads [of s1 s2] generateTradeoffData_reads [of s1 s2]
    generateDegradationProfile_reads [of p1 p2] tradeoff_columns_reads [of s1 s2]
    tradeoff_current_reads [of s1 s2]
  by blast

theorem C2_generator_dependencies_witness:
  "concentration referenceInputs
     = concentration \<lparr>mw = 30000, concentration = 10, voltage = 25, flowRate = 3, distance = 25\<rparr>
   \<and> generateMWComparison referenceInputs
     = generateMWComparison \<lparr>mw = 30000, concentration = 10, voltage = 25, flowRate = 3, distance = 25\<rparr>
   \<and> map mw_pt (generateTradeoffData referenceInputs)
     = map mw_pt (generateTradeoffData
         \<lparr>mw = 30000, concentration = 10, voltage = 25, flowRate = 3, distance = 25\<rparr>)
   \<and> map poreSize_pt (generateTradeoffData referenceInputs)
     = map poreSize_pt (generateTradeoffData
         \<lparr>mw = 30000, concentration = 10, voltage = 25, flowRate = 3, distance = 25\<rparr>)
   \<and> map tensileStrength_pt (generateTradeoffData referenceInputs)
     = map tensileStrength_pt (generateTradeoffData
         \<lparr>mw = 30000, concentration = 10, voltage = 25, flowRate = 3, distance = 25\<rparr>)
   \<and> mw (referenceInputs\<lparr>mw := 30000\<rparr>)
     = mw \<lparr>mw = 30000, concentration = 5, voltage = 25, flowRate = 3, distance = 25\<rparr>
   \<and> map current (generateTradeoffData (referenceInputs\<lparr>mw := 30000\<rparr>))
     = map current (generateTradeoffData
         \<lparr>mw = 30000, concentration = 5, voltage = 25, flowRate = 3, distance = 25\<rparr>)
   \<and> concentration referenceInputs
     = concentration \<lparr>mw = 100000, concentration = 10, voltage = 25, flowRate = 3, distance = 25\<rparr>
   \<and> mw referenceInputs
     = mw \<lparr>mw = 100000, concentration = 10, voltage = 25, flowRate = 3, distance = 25\<rparr>
   \<and> generateTradeoffData referenceInputs
     = generateTradeoffData \<lparr>mw = 100000, concentration = 10, voltage = 25, flowRate = 3, distance = 25\<rparr>
   \<and> degradationRate (predictionsOf (referenceInputs\<lparr>mw := 200000\<rparr>))
     = degradationRate (predictionsOf (referenceInputs\<lparr>mw := 200000, flowRate := 2.5\<rparr>))
   \<and> generateDegradationProfile (predictionsOf (referenceInputs\<lparr>mw := 200000\<rparr>))
     = generateDegradationProfile (predictionsOf (referenceInputs\<lparr>mw := 200000, flowRate := 2.5\<rparr>))"
  using C2_generator_dependencies [of referenceInputs
      "\<lparr>mw = 30000, concentration = 10, voltage = 25, flowRate = 3, distance = 25\<rparr>"
      "predictionsOf (referenceInputs\<lparr>mw := 200000\<rparr>)"
      "predictionsOf (referenceInputs\<lparr>mw := 200000, flowRate := 2.5\<rparr>)"]
    C2_generator_dependencies [of "referenceInputs\<lparr>mw := 30000\<rparr>"
      "\<lparr>mw = 30000, concentration = 5, voltage = 25, flowRate = 3, distance = 25\<rparr>"
      "predictionsOf (referenceInputs\<lparr>mw := 200000\<rparr>)"
      "predictionsOf (referenceInputs\<lparr>mw := 200000, flowRate := 2.5\<rparr>)"]
    C2_generator_dependencies [of referenceInputs
      "\<lparr>mw = 100000, concentration = 10, voltage = 25, flowRate = 3, distance = 25\<rparr>"
      "predictionsOf (referenceInputs\<lparr>mw := 200000\<rparr>)"
      "predictionsOf (referenceInputs\<lparr>mw := 200000, flowRate := 2.5\<rparr>)"]
    degradationRate_lower_clamp
  by (simp add: reference_fields)

text \<open>
  The degradation profile is not a function of the concentration alone. At week 16 the
  remaining mass is \<open>100 * exp (- k * 16)\<close> rounded, with \<open>k = degradationRate / 100 * 0.15\<close>.
  With the other inputs at their reference values, \<open>mw = 200000\<close> gives the degradation
  rate 4 and a remaining mass of at least 90, and \<open>mw = 30000\<close> gives the degradation
  rate 24.2875 and a remaining mass of at most 64 (by \<open>1 + x \<le> exp x\<close>).
\<close>

lemma massRemaining_week16:
  "massRemaining (generateDegradationProfile p ! 16) =
     max 0 (Math_round (100 * exp (- (degradationRate p / 100 * 0.15) * 16)))"
  by (simp add: generateDegradationProfile_def weeks_def Let_def)

lemma degradationRate_low_mw:
  "degradationRate (predictionsOf (referenceInputs\<lparr>mw := 30000\<rparr>)) = 1943 / 80"
  by (simp add: degradationRate_eq porosity_eq fiberDiameter_eq viscosityFactor_def
      voltageFactor_def flowFactor_def distanceFactor_def reference_fields max_def min_def)

lemma massRemaining_slow:
  "90 \<le> massRemaining (generateDegradationProfile (predictionsOf (referenceInputs\<lparr>mw := 200000\<rparr>)) ! 16)"
proof -
  have "1 + (- (12 / 125)) \<le> exp (- (12 / 125) :: real)"
    by (rule exp_ge_add_one_self)
  then have "90 \<le> 100 * exp (- (12 / 125) :: real) + 1 / 2"
    by simp
  then have "90 \<le> Math_round (100 * exp (- (12 / 125)))"
    unfolding Math_round_def by (simp add: le_floor_iff)
  then show ?thesis
    by (simp add: massRemaining_week16 degradationRate_lower_clamp)
qed

lemma massRemaining_fast:
  "massRemaining (generateDegradationProfile (predictionsOf (referenceInputs\<lparr>mw := 30000\<rparr>)) ! 16) \<le> 64"
proof -
  define x :: real where "x = 5829 / 10000"
  have "1 + x \<le> exp x"
    by (rule exp_ge_add_one_self)
  moreover have "exp (- x) * exp x = 1"
    by (simp add: exp_minus)
  ultimately have "exp (- x) * (1 + x) \<le> 1"
    by (metis exp_ge_zero mult_left_mono)
  then have "exp (- x) \<le> 1 / (1 + x)"
    by (simp add: x_def field_simps)
  then have "100 * exp (- x) + 1 / 2 < 64"
    by (simp add: x_def)
  then have "Math_round (100 * exp (- x)) \<le> 63"
    unfolding Math_round_def by (simp add: floor_less_iff)
  then show ?thesis
    by (simp add: massRemaining_week16 degradationRate_low_mw x_def)
qed

lemma profiles_differ:
  "generateDegradationProfile (predictionsOf (referenceInputs\<lparr>mw := 30000\<rparr>))
     \<noteq> generateDegradationProfile (predictionsOf (referenceInputs\<lparr>mw := 200000\<rparr>))"
  using massRemaining_fast massRemaining_slow by auto

text \<open>
  Claim C2, as stated, fails: two inputs with the same concentration (and the same
  voltage, flow rate and distance) but molecular weights 30000 and 200000 have different
  trade-off tables and different degradation profiles.
\<close>

theorem C2_counterexample:
  "concentration (referenceInputs\<lparr>mw := 30000\<rparr>) = concentration (referenceInputs\<lparr>mw := 200000\<rparr>)
   \<and> generateTradeoffData (referenceInputs\<lparr>mw := 30000\<rparr>)
       \<noteq> generateTradeoffData (referenceInputs\<lparr>mw := 200000\<rparr>)
   \<and> generateDegradationProfile (predictionsOf (referenceInputs\<lparr>mw := 30000\<rparr>))
       \<noteq> generateDegradationProfile (predictionsOf (referenceInputs\<lparr>mw := 200000\<rparr>))"
proof -
  have "map current (generateTradeoffData (referenceInputs\<lparr>mw := 30000\<rparr>))
      \<noteq> map current (generateTradeoffData (referenceInputs\<lparr>mw := 200000\<rparr>))"
    by (simp add: tradeoff_current)
  then have "generateTradeoffData (referenceInputs\<lparr>mw := 30000\<rparr>)
      \<noteq> generateTradeoffData (referenceInputs\<lparr>mw := 200000\<rparr>)"
    by auto
  then show ?thesis
    using profiles_differ by simp
qed

end
